theory Spec2Isabelle
  imports Main "HOL-Library.Sublist" "HOL-Library.Multiset"
begin

section \<open>JavaScript text and the string built-ins the converter calls\<close>

text \<open>
  A JavaScript string is a sequence of UTF-16 code units. The model's text is
  \<^typ>\<open>string\<close>: a \<^typ>\<open>char\<close> stands for the code unit with the same code, so the
  model covers text over U+0000 .. U+00FF. All the patterns and templates of
  \<open>handleConvert\<close> (src/app/page.tsx, lines 180-235) are ASCII.
\<close>

definition isWhiteSpace :: "char \<Rightarrow> bool" where
  \<comment> \<open>what \<open>String.prototype.trim\<close> strips (WhiteSpace and LineTerminator) below U+0100:
      TAB, LF, VT, FF, CR, SP and NBSP\<close>
  "isWhiteSpace c \<longleftrightarrow>
     c \<in> set [CHR 0x09, CHR 0x0A, CHR 0x0B, CHR 0x0C, CHR 0x0D, CHR 0x20, CHR 0xA0]"

definition trim :: "string \<Rightarrow> string" where
  "trim s = rev (dropWhile isWhiteSpace (rev (dropWhile isWhiteSpace s)))"

fun split :: "char \<Rightarrow> string \<Rightarrow> string list" where
  \<comment> \<open>\<open>s.split(sep)\<close> for a one-character separator; \<open>''.split(sep)\<close> is \<open>['']\<close>\<close>
  "split sep [] = [[]]"
| "split sep (c # cs) =
     (if c = sep then [] # split sep cs
      else (case split sep cs of [] \<Rightarrow> [[c]] | p # ps \<Rightarrow> (c # p) # ps))"

fun join :: "string \<Rightarrow> string list \<Rightarrow> string" where
  \<comment> \<open>\<open>xs.join(sep)\<close>\<close>
  "join sep [] = []"
| "join sep [x] = x"
| "join sep (x # y # ys) = x @ sep @ join sep (y # ys)"

definition toUpperCase_az :: "char \<Rightarrow> char" where
  \<comment> \<open>\<open>toUpperCase\<close> of one character; the source applies it to \<open>[a-z]\<close> only\<close>
  "toUpperCase_az c =
     (case map_of (zip ''abcdefghijklmnopqrstuvwxyz'' ''ABCDEFGHIJKLMNOPQRSTUVWXYZ'') c of
        Some u \<Rightarrow> u | None \<Rightarrow> c)"

subsection \<open>Regular expressions\<close>

text \<open>
  The regular expressions of the source are sequences of literals and of one character
  class, single or repeated. A repetition is greedy and backtracks, as in JavaScript.
  Capture groups are read off the matched text, whose literal parts have fixed lengths.
\<close>

datatype cls = NotChar char | LowerAZ

fun in_cls :: "cls \<Rightarrow> char \<Rightarrow> bool" where
  "in_cls (NotChar q) c \<longleftrightarrow> c \<noteq> q"
| "in_cls LowerAZ c \<longleftrightarrow> c \<in> set ''abcdefghijklmnopqrstuvwxyz''"

datatype item = Lit string | One cls | Star cls | Plus cls

type_synonym regex = "item list"

fun match_here :: "regex \<Rightarrow> string \<Rightarrow> string option"
  and match_star :: "cls \<Rightarrow> regex \<Rightarrow> string \<Rightarrow> string option" where
  \<comment> \<open>the regex matched at the start of the text: what is left after the match\<close>
  "match_here [] s = Some s"
| "match_here (Lit l # r) s =
     (if prefix l s then match_here r (drop (length l) s) else None)"
| "match_here (One C # r) s =
     (case s of [] \<Rightarrow> None | c # cs \<Rightarrow> if in_cls C c then match_here r cs else None)"
| "match_here (Star C # r) s = match_star C r s"
| "match_here (Plus C # r) s =
     (case s of [] \<Rightarrow> None | c # cs \<Rightarrow> if in_cls C c then match_star C r cs else None)"
| "match_star C r [] = match_here r []"
| "match_star C r (c # cs) =
     (if in_cls C c
      then (case match_star C r cs of Some rest \<Rightarrow> Some rest | None \<Rightarrow> match_here r (c # cs))
      else match_here r (c # cs))"

definition matched :: "string \<Rightarrow> string \<Rightarrow> string" where
  \<comment> \<open>the text of a match, from the text it starts in and what is left after it\<close>
  "matched s rest = take (length s - length rest) s"

fun replace_first :: "regex \<Rightarrow> (string \<Rightarrow> string) \<Rightarrow> string \<Rightarrow> string" where
  \<comment> \<open>\<open>s.replace(/re/, f)\<close>: the leftmost match only; no regex of the source matches
      the empty text\<close>
  "replace_first re f [] = []"
| "replace_first re f (c # cs) =
     (case match_here re (c # cs) of
        Some rest \<Rightarrow> f (matched (c # cs) rest) @ rest
      | None \<Rightarrow> c # replace_first re f cs)"

fun replace_global :: "regex \<Rightarrow> (string \<Rightarrow> string) \<Rightarrow> string \<Rightarrow> string" where
  \<comment> \<open>\<open>s.replace(/re/g, f)\<close>: every match, left to right, the search resuming after
      each match\<close>
  "replace_global re f [] = []"
| "replace_global re f (c # cs) =
     (case match_here re (c # cs) of
        Some rest \<Rightarrow>
          f (matched (c # cs) rest) @ replace_global re f (drop (length cs - length rest) cs)
      | None \<Rightarrow> c # replace_global re f cs)"

fun match_first :: "regex \<Rightarrow> string \<Rightarrow> string option" where
  \<comment> \<open>\<open>s.match(/re/)\<close>: the text of the leftmost match, or null\<close>
  "match_first re [] = None"
| "match_first re (c # cs) =
     (case match_here re (c # cs) of
        Some rest \<Rightarrow> Some (matched (c # cs) rest)
      | None \<Rightarrow> match_first re cs)"

section \<open>Objects, \<open>JSON.parse\<close>, \<open>Object.entries\<close> and \<open>JSON.stringify\<close>\<close>

datatype js_error =
    SyntaxError   \<comment> \<open>thrown by \<open>JSON.parse\<close>\<close>
  | TypeError     \<comment> \<open>thrown by \<open>Object.entries(null)\<close>\<close>
  | LibraryError  \<comment> \<open>thrown by the type generator called for \<open>typescript\<close>\<close>
  | Unsupported   \<comment> \<open>not an error of the program, a limit of the model: JSON text with
                      an escape beyond U+00FF, which the model's text cannot hold, or a
                      value for which the specification describes no type\<close>

text \<open>
  An ordinary object is the list of its own properties in creation order, every key once.
\<close>

type_synonym 'v object = "(string \<times> 'v) list"

fun CreateDataProperty :: "'v object \<Rightarrow> string \<Rightarrow> 'v \<Rightarrow> 'v object" where
  \<comment> \<open>an existing key keeps its place and takes the new value\<close>
  "CreateDataProperty [] k v = [(k, v)]"
| "CreateDataProperty ((k', v') # ps) k v =
     (if k' = k then (k, v) # ps else (k', v') # CreateDataProperty ps k v)"

definition isDigit :: "char \<Rightarrow> bool" where
  "isDigit c \<longleftrightarrow> c \<in> set ''0123456789''"

definition digitValue :: "char \<Rightarrow> int" where
  "digitValue c = of_char c - 48"

definition decimalValue :: "string \<Rightarrow> int" where
  "decimalValue s = foldl (\<lambda>n c. 10 * n + digitValue c) 0 s"

definition isArrayIndex :: "string \<Rightarrow> bool" where
  \<comment> \<open>a canonical numeric string of an integer from 0 to 2^32 - 2\<close>
  "isArrayIndex k \<longleftrightarrow>
     k \<noteq> [] \<and> list_all isDigit k \<and> (k = ''0'' \<or> hd k \<noteq> CHR ''0'') \<and>
     decimalValue k \<le> 4294967294"

definition ownEntries :: "'v object \<Rightarrow> (string \<times> 'v) list" where
  \<comment> \<open>the own properties as \<open>Object.entries\<close> and \<open>JSON.stringify\<close> enumerate them:
      array indices in ascending order, then the other keys in creation order\<close>
  "ownEntries ps =
     sort_key (\<lambda>(k, v). decimalValue k) (filter (\<lambda>(k, v). isArrayIndex k) ps) @
     filter (\<lambda>(k, v). \<not> isArrayIndex k) ps"

datatype json =
    JNull
  | JBool bool
  | JNumber string   \<comment> \<open>the source text of the number: the converters read only its kind\<close>
  | JString string
  | JArray "json list"
  | JObject "json object"

subsection \<open>Tokens\<close>

datatype token =
    TLBrace | TRBrace | TLBracket | TRBracket | TColon | TComma
  | TString string | TNumber string | TTrue | TFalse | TNull

definition hexValue :: "char \<Rightarrow> int option" where
  "hexValue c =
     map_of (zip ''0123456789abcdef'' [0, 1, 2, 3, 4, 5, 6, 7, 8, 9, 10, 11, 12, 13, 14, 15] @
             zip ''ABCDEF'' [10, 11, 12, 13, 14, 15]) c"

definition hex4 :: "string \<Rightarrow> int option" where
  \<comment> \<open>the code unit of four hexadecimal digits\<close>
  "hex4 s =
     (case map hexValue s of
        [Some a, Some b, Some c, Some d] \<Rightarrow> Some (((a * 16 + b) * 16 + c) * 16 + d)
      | _ \<Rightarrow> None)"

definition simpleEscape :: "char \<Rightarrow> char option" where
  "simpleEscape e =
     map_of [(CHR 0x22, CHR 0x22), (CHR 0x5C, CHR 0x5C), (CHR ''/'', CHR ''/''),
             (CHR ''b'', CHR 0x08), (CHR ''f'', CHR 0x0C), (CHR ''n'', CHR 0x0A),
             (CHR ''r'', CHR 0x0D), (CHR ''t'', CHR 0x09)] e"

fun lex_string :: "string \<Rightarrow> js_error + (string \<times> nat)" where
  \<comment> \<open>after the opening quote: the decoded text and the number of characters read,
      the closing quote included\<close>
  "lex_string [] = Inl SyntaxError"
| "lex_string (c # cs) =
     (if c = CHR 0x22 then Inr ([], 1)
      else if c = CHR 0x5C then
        (case cs of
           [] \<Rightarrow> Inl SyntaxError
         | e # es \<Rightarrow>
             if e = CHR ''u'' then
               (case hex4 (take 4 es) of
                  None \<Rightarrow> Inl SyntaxError
                | Some u \<Rightarrow>
                    if u < 256 then
                      (case lex_string (drop 4 es) of
                         Inl err \<Rightarrow> Inl err
                       | Inr (t, n) \<Rightarrow> Inr (char_of u # t, n + 6))
                    else Inl Unsupported)
             else
               (case simpleEscape e of
                  None \<Rightarrow> Inl SyntaxError
                | Some d \<Rightarrow>
                    (case lex_string es of
                       Inl err \<Rightarrow> Inl err
                     | Inr (t, n) \<Rightarrow> Inr (d # t, n + 2))))
      else if (of_char c :: nat) < 32 then Inl SyntaxError
      else
        (case lex_string cs of
           Inl err \<Rightarrow> Inl err
         | Inr (t, n) \<Rightarrow> Inr (c # t, n + 1)))"

definition digitsLen :: "string \<Rightarrow> nat" where
  "digitsLen s = length (takeWhile isDigit s)"

definition lex_number :: "string \<Rightarrow> nat option" where
  \<comment> \<open>the length of the longest prefix that is a JSON number:
      \<open>-?(0|[1-9][0-9]*)(\.[0-9]+)?([eE][+-]?[0-9]+)?\<close>\<close>
  "lex_number s =
     (let sign = (if take 1 s = ''-'' then 1 else 0);
          s1 = drop sign s;
          int = (if take 1 s1 = ''0'' then 1 else digitsLen s1);
          s2 = drop int s1;
          frac = (if take 1 s2 = ''.'' \<and> 0 < digitsLen (drop 1 s2)
                  then 1 + digitsLen (drop 1 s2) else 0);
          s3 = drop frac s2;
          esign = (if take 1 s3 \<in> {''e'', ''E''} \<and> take 1 (drop 1 s3) \<in> {''+'', ''-''}
                   then 1 else 0);
          ex = (if take 1 s3 \<in> {''e'', ''E''} \<and> 0 < digitsLen (drop (1 + esign) s3)
                then 1 + esign + digitsLen (drop (1 + esign) s3) else 0)
      in if int = 0 then None else Some (sign + int + frac + ex))"

definition isJSONWhiteSpace :: "char \<Rightarrow> bool" where
  "isJSONWhiteSpace c \<longleftrightarrow> c \<in> set [CHR 0x20, CHR 0x09, CHR 0x0A, CHR 0x0D]"

fun tokenize :: "string \<Rightarrow> js_error + token list" where
  "tokenize [] = Inr []"
| "tokenize (c # cs) =
     (if isJSONWhiteSpace c then tokenize cs
      else if c = CHR 0x22 then
        (case lex_string cs of
           Inl err \<Rightarrow> Inl err
         | Inr (t, n) \<Rightarrow>
             (case tokenize (drop n cs) of Inl err \<Rightarrow> Inl err | Inr ts \<Rightarrow> Inr (TString t # ts)))
      else if prefix ''true'' (c # cs) then
        (case tokenize (drop 3 cs) of Inl err \<Rightarrow> Inl err | Inr ts \<Rightarrow> Inr (TTrue # ts))
      else if prefix ''false'' (c # cs) then
        (case tokenize (drop 4 cs) of Inl err \<Rightarrow> Inl err | Inr ts \<Rightarrow> Inr (TFalse # ts))
      else if prefix ''null'' (c # cs) then
        (case tokenize (drop 3 cs) of Inl err \<Rightarrow> Inl err | Inr ts \<Rightarrow> Inr (TNull # ts))
      else
        (case map_of [(CHR ''{'', TLBrace), (CHR ''}'', TRBrace), (CHR ''['', TLBracket),
                      (CHR '']'', TRBracket), (CHR '':'', TColon), (CHR '','', TComma)] c of
           Some t \<Rightarrow> (case tokenize cs of Inl err \<Rightarrow> Inl err | Inr ts \<Rightarrow> Inr (t # ts))
         | None \<Rightarrow>
             (case lex_number (c # cs) of
                None \<Rightarrow> Inl SyntaxError
              | Some n \<Rightarrow>
                  (case tokenize (drop (n - 1) cs) of
                     Inl err \<Rightarrow> Inl err
                   | Inr ts \<Rightarrow> Inr (TNumber (take n (c # cs)) # ts)))))"

subsection \<open>Values\<close>

datatype frame =
    InArray "json list"          \<comment> \<open>the elements read so far\<close>
  | InObject "json object" string  \<comment> \<open>the members read so far and the key whose value is next\<close>

fun parse_value :: "frame list \<Rightarrow> token list \<Rightarrow> js_error + json"
  and parse_after :: "frame list \<Rightarrow> json \<Rightarrow> token list \<Rightarrow> js_error + json" where
  \<comment> \<open>\<open>parse_value\<close> expects a value; \<open>parse_after\<close> has just read one, inside the
      open arrays and objects of the stack\<close>
  "parse_value st [] = Inl SyntaxError"
| "parse_value st (t # ts) =
     (case t of
        TLBracket \<Rightarrow>
          (case ts of
             TRBracket # ts' \<Rightarrow> parse_after st (JArray []) ts'
           | _ \<Rightarrow> parse_value (InArray [] # st) ts)
      | TLBrace \<Rightarrow>
          (case ts of
             TRBrace # ts' \<Rightarrow> parse_after st (JObject []) ts'
           | TString k # TColon # ts' \<Rightarrow> parse_value (InObject [] k # st) ts'
           | _ \<Rightarrow> Inl SyntaxError)
      | TString s \<Rightarrow> parse_after st (JString s) ts
      | TNumber n \<Rightarrow> parse_after st (JNumber n) ts
      | TTrue \<Rightarrow> parse_after st (JBool True) ts
      | TFalse \<Rightarrow> parse_after st (JBool False) ts
      | TNull \<Rightarrow> parse_after st JNull ts
      | _ \<Rightarrow> Inl SyntaxError)"
| "parse_after st v ts =
     (case st of
        [] \<Rightarrow> (if ts = [] then Inr v else Inl SyntaxError)
      | InArray xs # st' \<Rightarrow>
          (case ts of
             TComma # ts' \<Rightarrow> parse_value (InArray (xs @ [v]) # st') ts'
           | TRBracket # ts' \<Rightarrow> parse_after st' (JArray (xs @ [v])) ts'
           | _ \<Rightarrow> Inl SyntaxError)
      | InObject ps k # st' \<Rightarrow>
          (case ts of
             TComma # TString k' # TColon # ts' \<Rightarrow>
               parse_value (InObject (CreateDataProperty ps k v) k' # st') ts'
           | TRBrace # ts' \<Rightarrow> parse_after st' (JObject (CreateDataProperty ps k v)) ts'
           | _ \<Rightarrow> Inl SyntaxError))"

definition JSON_parse :: "string \<Rightarrow> js_error + json" where
  "JSON_parse s = (case tokenize s of Inl err \<Rightarrow> Inl err | Inr ts \<Rightarrow> parse_value [] ts)"

fun show_nat :: "nat \<Rightarrow> string" where
  "show_nat n =
     (if n < 10 then [''0123456789'' ! n] else show_nat (n div 10) @ [''0123456789'' ! (n mod 10)])"

fun Object_entries :: "json \<Rightarrow> js_error + (string \<times> json) list" where
  "Object_entries JNull = Inl TypeError"
| "Object_entries (JBool b) = Inr []"
| "Object_entries (JNumber n) = Inr []"
| "Object_entries (JString s) = Inr (map (\<lambda>i. (show_nat i, JString [s ! i])) [0 ..< length s])"
| "Object_entries (JArray xs) = Inr (map (\<lambda>i. (show_nat i, xs ! i)) [0 ..< length xs])"
| "Object_entries (JObject ps) = Inr (ownEntries ps)"

definition isNumber :: "json \<Rightarrow> bool" where
  \<comment> \<open>\<open>typeof v === 'number'\<close>\<close>
  "isNumber v = (case v of JNumber n \<Rightarrow> True | _ \<Rightarrow> False)"

subsection \<open>\<open>JSON.stringify(obj, null, 2)\<close> of an object of strings\<close>

definition hexDigit :: "nat \<Rightarrow> char" where
  "hexDigit n = ''0123456789abcdef'' ! n"

definition quoteChar :: "char \<Rightarrow> string" where
  "quoteChar c =
     (case map_of [(CHR 0x08, [CHR 0x5C, CHR ''b'']), (CHR 0x09, [CHR 0x5C, CHR ''t'']),
                   (CHR 0x0A, [CHR 0x5C, CHR ''n'']), (CHR 0x0C, [CHR 0x5C, CHR ''f'']),
                   (CHR 0x0D, [CHR 0x5C, CHR ''r'']), (CHR 0x22, [CHR 0x5C, CHR 0x22]),
                   (CHR 0x5C, [CHR 0x5C, CHR 0x5C])] c of
        Some e \<Rightarrow> e
      | None \<Rightarrow>
          if (of_char c :: nat) < 32
          then [CHR 0x5C, CHR ''u'', CHR ''0'', CHR ''0'',
                hexDigit (of_char c div 16), hexDigit (of_char c mod 16)]
          else [c])"

definition QuoteJSONString :: "string \<Rightarrow> string" where
  "QuoteJSONString s = [CHR 0x22] @ concat (map quoteChar s) @ [CHR 0x22]"

definition JSON_stringify :: "string object \<Rightarrow> string" where
  "JSON_stringify obj =
     (if obj = [] then ''{}''
      else ''{\<newline>'' @
           join '',\<newline>''
             (map (\<lambda>(k, v). ''  '' @ QuoteJSONString k @ '': '' @ QuoteJSONString v)
                (ownEntries obj)) @
           ''\<newline>}'')"

section \<open>The conversions of \<open>handleConvert\<close>\<close>

definition camelCase :: "string \<Rightarrow> string" where
  \<comment> \<open>\<open>.replace(/-([a-z])/g, g => g[1].toUpperCase())\<close>; \<open>g\<close> is the matched text, a hyphen
      and a letter\<close>
  "camelCase s = replace_global [Lit ''-'', One LowerAZ] (\<lambda>g. [toUpperCase_az (g ! 1)]) s"

subsection \<open>\<open>css_obj\<close> (lines 188-198)\<close>

definition setProperty :: "string object \<Rightarrow> string \<Rightarrow> string \<Rightarrow> string object" where
  \<comment> \<open>\<open>acc[key] = value\<close> on an object created by \<open>{}\<close>: the key \<open>__proto__\<close> reaches the
      setter of \<open>Object.prototype\<close>, which ignores a string; any other key is an own
      property\<close>
  "setProperty acc k v = (if k = ''__proto__'' then acc else CreateDataProperty acc k v)"

definition css_value :: "string \<Rightarrow> string" where
  \<comment> \<open>\<open>val.trim().replace(';', '').replace(/'/g, "\\'")\<close>\<close>
  "css_value val =
     replace_global [Lit [CHR 0x27]] (\<lambda>_. [CHR 0x5C, CHR 0x27])
       (replace_first [Lit '';''] (\<lambda>_. []) (trim val))"

definition css_line :: "string object \<Rightarrow> string \<Rightarrow> string object" where
  \<comment> \<open>the body of the \<open>reduce\<close>; \<open>const [key, val] = line.split(':')\<close> takes the first
      two pieces, and \<open>key && val\<close> holds when both are there and not empty\<close>
  "css_line acc line =
     (case split CHR '':'' line of
        key # val # _ \<Rightarrow>
          if key \<noteq> [] \<and> val \<noteq> []
          then setProperty acc (camelCase (trim key)) (css_value val)
          else acc
      | _ \<Rightarrow> acc)"

definition css_obj :: "string \<Rightarrow> string" where
  "css_obj cleanInput = JSON_stringify (foldl css_line [] (split CHR ''\<newline>'' cleanInput))"

subsection \<open>\<open>svg_tailwind\<close> (lines 199-208)\<close>

definition attr :: "string \<Rightarrow> regex" where
  \<comment> \<open>\<open>/name="[^"]*"/\<close>\<close>
  \<open>attr name = [Lit (name @ ''="''), Star (NotChar CHR 0x22), Lit ''"'']\<close>

definition svg_tailwind :: "string \<Rightarrow> string" where
  \<open>svg_tailwind cleanInput =
     (let result =
        replace_global [Lit ''stroke-linejoin=''] (\<lambda>_. ''strokeLinejoin='')
         (replace_global [Lit ''stroke-linecap=''] (\<lambda>_. ''strokeLinecap='')
          (replace_global [Lit ''stroke-width=''] (\<lambda>_. ''strokeWidth='')
           (replace_first (attr ''fill'') (\<lambda>_. ''fill="none"'')
            (replace_first (attr ''stroke'') (\<lambda>_. ''stroke="currentColor"'')
             (replace_first (attr ''height'') (\<lambda>_. [])
              (replace_first (attr ''width'') (\<lambda>_. ''className={className}'')
                 cleanInput))))))
      in ''export const Icon = ({ className = "w-6 h-6" }) => (\<newline>  '' @ result @ ''\<newline>);'')\<close>

subsection \<open>\<open>curl_fetch\<close> (lines 209-212)\<close>

definition quoted :: "char \<Rightarrow> regex" where
  \<comment> \<open>\<open>/'([^']+)'/\<close> and \<open>/"([^"]+)"/\<close>\<close>
  "quoted q = [Lit [q], Plus (NotChar q), Lit [q]]"

definition group1 :: "string \<Rightarrow> string" where
  \<comment> \<open>the group of a match of \<open>quoted\<close>: the match without its two quotes\<close>
  "group1 m = butlast (tl m)"

definition curl_url :: "string \<Rightarrow> string" where
  \<comment> \<open>\<open>urlMatch ? urlMatch[1] : 'https://api.example.com'\<close>, where \<open>urlMatch\<close> is the
      match of the first regex, or of the second when the first has none\<close>
  "curl_url cleanInput =
     (case match_first (quoted CHR 0x27) cleanInput of
        Some m \<Rightarrow> group1 m
      | None \<Rightarrow>
          (case match_first (quoted CHR 0x22) cleanInput of
             Some m \<Rightarrow> group1 m
           | None \<Rightarrow> ''https://api.example.com''))"

definition curl_fetch :: "string \<Rightarrow> string" where
  "curl_fetch cleanInput =
     ''fetch('' @ [CHR 0x27] @ curl_url cleanInput @ [CHR 0x27] @
     '', {\<newline>  method: 'GET',\<newline>  headers: {\<newline>    'Content-Type': 'application/json'\<newline>  }\<newline>}).then(res => res.json());''"

subsection \<open>\<open>typebox\<close> (lines 213-216)\<close>

definition typebox_field :: "string \<times> json \<Rightarrow> string" where
  "typebox_field = (\<lambda>(k, v).
     ''  '' @ k @ '': Type.'' @ (if isNumber v then ''Number'' else ''String'') @ ''()'')"

definition typebox :: "string \<Rightarrow> js_error + string" where
  "typebox cleanInput =
     (case JSON_parse cleanInput of
        Inl err \<Rightarrow> Inl err
      | Inr parsed \<Rightarrow>
          (case Object_entries parsed of
             Inl err \<Rightarrow> Inl err
           | Inr entries \<Rightarrow>
               Inr (''const T = Type.Object({\<newline>'' @
                    join '',\<newline>'' (map typebox_field entries) @ ''\<newline>})'')))"

subsection \<open>\<open>html_jsx\<close> and \<open>jsx\<close> (lines 217-222)\<close>

definition style_attr :: "string \<Rightarrow> string" where
  \<comment> \<open>the replacement of a match of \<open>/style="([^"]*)"/g\<close>; \<open>p1\<close> is the match without
      \<open>style="\<close> and the closing quote\<close>
  "style_attr m = (let p1 = butlast (drop 7 m) in ''style={{'' @ camelCase p1 @ ''}}'')"

definition html_jsx :: "string \<Rightarrow> string" where
  "html_jsx cleanInput =
     replace_global (attr ''style'') style_attr
      (replace_global [Lit ''for=''] (\<lambda>_. ''htmlFor='')
       (replace_global [Lit ''class=''] (\<lambda>_. ''className='') cleanInput))"

definition jsx :: "string \<Rightarrow> string" where
  "jsx cleanInput =
     ''export const IconComponent = (props) => (\<newline>  '' @
     replace_first [Lit ''<svg''] (\<lambda>_. ''<svg {...props}'') (html_jsx cleanInput) @
     ''\<newline>);''"

subsection \<open>\<open>typescript\<close> (lines 186-187)\<close>

text \<open>
  \<open>JsonToTS\<close> is the default export of the package \<open>json-to-ts\<close> (page.tsx, line 5). It is
  not part of the repository, so the conversion takes it as a parameter: a function from
  the parsed value to the list of declarations, or to the error it throws.
\<close>

type_synonym type_generator = "json \<Rightarrow> js_error + string list"

definition typescript :: "type_generator \<Rightarrow> string \<Rightarrow> js_error + string" where
  "typescript JsonToTS cleanInput =
     (case JSON_parse cleanInput of
        Inl err \<Rightarrow> Inl err
      | Inr parsed \<Rightarrow>
          (case JsonToTS parsed of
             Inl err \<Rightarrow> Inl err
           | Inr decls \<Rightarrow> Inr (join ''\<newline>\<newline>'' decls)))"

subsection \<open>The dispatch\<close>

datatype outcome =
    EmptyInput          \<comment> \<open>line 182: the early return, nothing is converted\<close>
  | Failure js_error    \<comment> \<open>lines 232-234: an exception reaches the \<open>catch\<close> and is logged\<close>
  | Converted string    \<comment> \<open>line 226: \<open>result\<close> is handed to \<open>setOutputCode\<close>\<close>

definition of_result :: "js_error + string \<Rightarrow> outcome" where
  "of_result r = (case r of Inl err \<Rightarrow> Failure err | Inr result \<Rightarrow> Converted result)"

definition transform :: "type_generator \<Rightarrow> string \<Rightarrow> string \<Rightarrow> outcome" where
  "transform JsonToTS targetLang inputCode =
     (if trim inputCode = [] then EmptyInput
      else
        let cleanInput = trim inputCode in
        if targetLang = ''typescript'' then of_result (typescript JsonToTS cleanInput)
        else if targetLang = ''css_obj'' then Converted (css_obj cleanInput)
        else if targetLang = ''svg_tailwind'' then Converted (svg_tailwind cleanInput)
        else if targetLang = ''curl_fetch'' then Converted (curl_fetch cleanInput)
        else if targetLang = ''typebox'' then of_result (typebox cleanInput)
        else if targetLang = ''html_jsx'' \<or> targetLang = ''jsx'' then
          Converted (if targetLang = ''jsx'' then jsx cleanInput else html_jsx cleanInput)
        else Converted (''// Converted '' @ targetLang @ '':\<newline>'' @ cleanInput))"

subsection \<open>The component's state\<close>

record user =
  uid :: string   \<comment> \<open>\<open>user.id\<close>\<close>
  is_anonymous :: bool

record row =
  input_text :: string
  output_text :: string
  format_type :: string
  user_id :: string

record state =
  inputCode :: string
  targetLang :: string
  outputCode :: string
  signedIn :: "user option"
  inserted :: "row list"   \<comment> \<open>the rows sent to the \<open>conversions\<close> table, oldest first\<close>

definition handleConvert :: "type_generator \<Rightarrow> state \<Rightarrow> state" where
  "handleConvert JsonToTS st =
     (case transform JsonToTS (targetLang st) (inputCode st) of
        Converted result \<Rightarrow>
          (let st' = st\<lparr>outputCode := result\<rparr> in
           case signedIn st of
             Some u \<Rightarrow>
               if \<not> is_anonymous u
               then st'\<lparr>inserted := inserted st @
                      [\<lparr>input_text = trim (inputCode st), output_text = result,
                        format_type = targetLang st, user_id = uid u\<rparr>]\<rparr>
               else st'
           | None \<Rightarrow> st')
      | _ \<Rightarrow> st)"

subsection \<open>The tables of the page (lines 21-82)\<close>

definition placeholders :: "(string \<times> string \<times> string) list" where
  \<comment> \<open>for a conversion id, the sample input and the sample output the page shows when
      the conversion is selected\<close>
  \<open>placeholders =
    [
     (''jsx'',
      ''<svg width="100" height="100">\<newline>  <circle cx="50" cy="50" r="40" stroke="green" stroke-width="4" fill="yellow" />\<newline></svg>'',
      ''export const IconComponent = (props) => (\<newline>  <svg width="100" height="100" {...props}>\<newline>    <circle cx="50" cy="50" r="40" stroke="green" strokeWidth="4" fill="yellow" />\<newline>  </svg>\<newline>);''),
     (''svg_tailwind'',
      ''<svg width="24" height="24" viewBox="0 0 24 24" fill="none" stroke="#000">\<newline>  <path d="M5 12h14M12 5l7 7-7 7" stroke-width="2" stroke-linecap="round" stroke-linejoin="round"/>\<newline></svg>'',
      ''export const Icon = ({ className = "w-6 h-6" }) => (\<newline>  <svg className={className} viewBox="0 0 24 24" fill="none" stroke="currentColor">\<newline>    <path d="M5 12h14M12 5l7 7-7 7" strokeWidth={2} strokeLinecap="round" strokeLinejoin="round"/>\<newline>  </svg>\<newline>);''),
     (''html_jsx'',
      ''<div class="container" for="username">\<newline>  <label>Username</label>\<newline>  <input type="text" id="username" />\<newline></div>'',
      ''<div className="container" htmlFor="username">\<newline>  <label>Username</label>\<newline>  <input type="text" id="username" />\<newline></div>''),
     (''tailwind'',
      ''.btn {\<newline>  background-color: #3b82f6;\<newline>  padding: 0.5rem 1rem;\<newline>  border-radius: 0.25rem;\<newline>}'',
      ''bg-blue-500 px-4 py-2 rounded''),
     (''css_obj'',
      ''background-color: #ffffff;\<newline>margin-top: 20px;\<newline>font-size: 1rem;'',
      ''{\<newline>  backgroundColor: '#ffffff',\<newline>  marginTop: '20px',\<newline>  fontSize: '1rem'\<newline>}''),
     (''typescript'',
      ''{\<newline>  "id": 1,\<newline>  "name": "John Doe",\<newline>  "isActive": true\<newline>}'',
      ''interface RootObject {\<newline>  id: number;\<newline>  name: string;\<newline>  isActive: boolean;\<newline>}''),
     (''zod'',
      ''{\<newline>  "username": "dev_user",\<newline>  "age": 25\<newline>}'',
      ''const schema = z.object({\<newline>  username: z.string(),\<newline>  age: z.number()\<newline>})''),
     (''typebox'',
      ''{\<newline>  "status": "success",\<newline>  "count": 10\<newline>}'',
      ''const T = Type.Object({\<newline>  status: Type.String(),\<newline>  count: Type.Number()\<newline>})''),
     (''mongoose'',
      ''{\<newline>  "title": "Post",\<newline>  "views": 100\<newline>}'',
      ''const PostSchema = new Schema({\<newline>  title: String,\<newline>  views: Number\<newline>})''),
     (''sql'',
      ''{\<newline>  "id": 1,\<newline>  "username": "alice"\<newline>}'',
      ''CREATE TABLE users (\<newline>  id INT,\<newline>  username VARCHAR(255)\<newline>);''),
     (''curl_fetch'',
      ''curl 'https://api.example.com/data' -H 'Authorization: Bearer 123'' @ [CHR 0x27],
      ''fetch('https://api.example.com/data', {\<newline>  headers: {\<newline>    'Authorization': 'Bearer 123'\<newline>  }\<newline>})'')
    ]\<close>



subsection \<open>CSS declarations, in the words of the specification\<close>










subsection \<open>Text without pattern starts\<close>

definition plain :: "string \<Rightarrow> bool" where
  \<comment> \<open>text in which no pattern of \<open>svg_tailwind\<close> or \<open>html_jsx\<close> can start, and no
      attribute value end: none of the letters c, f, h, s, w and no double quote\<close>
  \<open>plain t \<longleftrightarrow> (\<forall>c\<in>set t. c \<notin> set ''cfhsw"'')\<close>

subsection \<open>Quoted tokens\<close>

definition first_between :: "char \<Rightarrow> string \<Rightarrow> string option" where
  \<comment> \<open>the first non-empty text that stands between two consecutive quotes \<open>q\<close>\<close>
  "first_between q t = find (\<lambda>p. p \<noteq> []) (butlast (tl (split q t)))"

fun spec_first_quoted_token :: "string \<Rightarrow> string option" where
  \<comment> \<open>the words of the claim: the first token of the input in single or in double
      quotes, whichever of the two comes first\<close>
  "spec_first_quoted_token [] = None"
| "spec_first_quoted_token (c # cs) =
     (case match_here (quoted CHR 0x27) (c # cs) of
        Some rest \<Rightarrow> Some (group1 (matched (c # cs) rest))
      | None \<Rightarrow>
          (case match_here (quoted CHR 0x22) (c # cs) of
             Some rest \<Rightarrow> Some (group1 (matched (c # cs) rest))
           | None \<Rightarrow> spec_first_quoted_token cs))"

subsection \<open>A type generator from the specification\<close>

text \<open>
  The declarations of \<open>typescript\<close> come from the package \<open>json-to-ts\<close>, whose source is
  not in the repository. What follows is a generator written from the specification
  (section 4.2, JSON to TypeScript interface) and from the sample output of the page
  (line 44), to state the claim about the declarations against. It is defined where
  the specification says what the type is: on objects whose values are numbers, strings,
  booleans, non-empty arrays of one element type, and such objects.
\<close>

datatype ts_type =
    TsNumber | TsString | TsBoolean
  | TsArray ts_type
  | TsObject "(string \<times> ts_type) list"

type_synonym shape = "(string \<times> ts_type) list"

fun spec_infer :: "json \<Rightarrow> ts_type option"
  \<comment> \<open>Modelled from the spec: the structural type of a value, by a recursive walk;
      primitive fields by runtime kind, an array by the type of its elements, an object by
      its fields in key order. \<open>None\<close> where the specification gives no type (\<open>null\<close>,
      an empty array, elements of different types).\<close>
  and spec_infer_elements :: "json list \<Rightarrow> ts_type list option"
  and spec_infer_fields :: "json object \<Rightarrow> shape option" where
  "spec_infer JNull = None"
| "spec_infer (JBool b) = Some TsBoolean"
| "spec_infer (JNumber n) = Some TsNumber"
| "spec_infer (JString s) = Some TsString"
| "spec_infer (JArray xs) =
     (case spec_infer_elements xs of
        Some (t # ts) \<Rightarrow> if list_all (\<lambda>u. u = t) ts then Some (TsArray t) else None
      | _ \<Rightarrow> None)"
| "spec_infer (JObject ps) = map_option (TsObject \<circ> ownEntries) (spec_infer_fields ps)"
| "spec_infer_elements [] = Some []"
| "spec_infer_elements (x # xs) =
     (case spec_infer x of
        None \<Rightarrow> None
      | Some t \<Rightarrow> map_option ((#) t) (spec_infer_elements xs))"
| "spec_infer_fields [] = Some []"
| "spec_infer_fields ((k, v) # ps) =
     (case spec_infer v of
        None \<Rightarrow> None
      | Some t \<Rightarrow> map_option ((#) (k, t)) (spec_infer_fields ps))"

definition capitalise :: "string \<Rightarrow> string" where
  \<comment> \<open>Modelled from the spec: the name of a nested interface, from the key it is found
      under (a choice of the model: the specification names no interface but the root)\<close>
  "capitalise k = (case k of [] \<Rightarrow> [] | c # cs \<Rightarrow> toUpperCase_az c # cs)"

fun objects_of :: "string \<Rightarrow> ts_type \<Rightarrow> (string \<times> shape) list"
  \<comment> \<open>Modelled from the spec: the object shapes of a type in discovery order, an object
      before the objects nested in it, each with the name it was found under\<close>
  and objects_of_fields :: "shape \<Rightarrow> (string \<times> shape) list" where
  "objects_of hint (TsObject fs) = (hint, fs) # objects_of_fields fs"
| "objects_of hint (TsArray t) = objects_of hint t"
| "objects_of hint TsNumber = []"
| "objects_of hint TsString = []"
| "objects_of hint TsBoolean = []"
| "objects_of_fields [] = []"
| "objects_of_fields ((k, t) # fs) = objects_of (capitalise k) t @ objects_of_fields fs"







subsection \<open>Invariants of the parser\<close>



definition unavailable :: type_generator where
  \<comment> \<open>a generator that throws on every value; it closes the statements that do not
      depend on the package\<close>
  "unavailable v = Inl LibraryError"

section \<open>Properties\<close>

subsection \<open>Trimming\<close>

lemma Ball_dropWhile: "(\<forall>x\<in>set (dropWhile P xs). P x) \<longleftrightarrow> (\<forall>x\<in>set xs. P x)"
  by (induction xs) auto

lemma trim_Nil_iff: "trim s = [] \<longleftrightarrow> list_all isWhiteSpace s"
  by (simp add: trim_def list_all_iff Ball_dropWhile)



subsection \<open>Splitting\<close>

lemma split_not_Nil: "split q t \<noteq> []"
  by (induction t) (auto split: list.splits)

lemma split_eq: "split q t =
   takeWhile (\<lambda>c. c \<noteq> q) t #
   (case dropWhile (\<lambda>c. c \<noteq> q) t of [] \<Rightarrow> [] | _ # r \<Rightarrow> split q r)"
  using split_not_Nil by (induction t) (auto split: list.splits)

subsection \<open>Blank input\<close>

text \<open>
  C2. Whatever the conversion id, an input that is empty or made of white space only
  ends in \<open>EmptyInput\<close>: the early return of line 182 comes before the dispatch, so no
  conversion runs, nothing is thrown, and the state (the displayed output included) is
  what it was. \<open>EmptyInput\<close> is a result of its own, different from a conversion to the
  empty text.
\<close>

theorem blank_input_is_no_op:
  assumes "list_all isWhiteSpace (inputCode st)"
  shows "transform JsonToTS (targetLang st) (inputCode st) = EmptyInput \<and>
         handleConvert JsonToTS st = st"
  using assms by (simp add: transform_def handleConvert_def trim_Nil_iff)

theorem blank_input_is_no_op_witness:
  "list_all isWhiteSpace
     (inputCode \<lparr>inputCode = ''  \<newline> '', targetLang = ''typescript'',
                 outputCode = ''interface A {}'', signedIn = None, inserted = []\<rparr>) \<and>
   transform unavailable ''typescript'' ''  \<newline> '' = EmptyInput \<and>
   handleConvert unavailable
     \<lparr>inputCode = ''  \<newline> '', targetLang = ''typescript'',
      outputCode = ''interface A {}'', signedIn = None, inserted = []\<rparr> =
     \<lparr>inputCode = ''  \<newline> '', targetLang = ''typescript'',
      outputCode = ''interface A {}'', signedIn = None, inserted = []\<rparr>"
  using blank_input_is_no_op
    [of "\<lparr>inputCode = ''  \<newline> '', targetLang = ''typescript'',
          outputCode = ''interface A {}'', signedIn = None, inserted = []\<rparr>" unavailable]
  by (simp add: isWhiteSpace_def)

subsection \<open>Surrounding white space\<close>



subsection \<open>The schema conversions that are not wired\<close>

lemma placeholder_zod:
  \<open>map_of placeholders ''zod'' =
     Some (''{\<newline>  "username": "dev_user",\<newline>  "age": 25\<newline>}'',
           ''const schema = z.object({\<newline>  username: z.string(),\<newline>  age: z.number()\<newline>})'')\<close>
  by (simp add: placeholders_def)

text \<open>
  C1. The claim is that \<open>zod\<close>, \<open>mongoose\<close> and \<open>sql\<close> emit a schema or a
  \<open>CREATE TABLE\<close> with one typed field per key. The dispatch has no branch for these
  three ids: on the sample inputs of the page they reach the last \<open>else\<close> (lines 223-225)
  and the output is the input under a comment line, not the sample output that
  \<open>placeholders\<close> shows for them.
\<close>

theorem schema_ids_fall_through:
  \<open>transform unavailable ''zod'' ''{\<newline>  "username": "dev_user",\<newline>  "age": 25\<newline>}'' =
     Converted (''// Converted zod:\<newline>'' @ ''{\<newline>  "username": "dev_user",\<newline>  "age": 25\<newline>}'') \<and>
   transform unavailable ''mongoose'' ''{\<newline>  "title": "Post",\<newline>  "views": 100\<newline>}'' =
     Converted (''// Converted mongoose:\<newline>'' @ ''{\<newline>  "title": "Post",\<newline>  "views": 100\<newline>}'') \<and>
   transform unavailable ''sql'' ''{\<newline>  "id": 1,\<newline>  "username": "alice"\<newline>}'' =
     Converted (''// Converted sql:\<newline>'' @ ''{\<newline>  "id": 1,\<newline>  "username": "alice"\<newline>}'')\<close>
  by code_simp

subsection \<open>SVG to a React component\<close>

lemma placeholder_jsx:
  \<open>map_of placeholders ''jsx'' =
     Some (''<svg width="100" height="100">\<newline>  <circle cx="50" cy="50" r="40" stroke="green" stroke-width="4" fill="yellow" />\<newline></svg>'',
           ''export const IconComponent = (props) => (\<newline>  <svg width="100" height="100" {...props}>\<newline>    <circle cx="50" cy="50" r="40" stroke="green" strokeWidth="4" fill="yellow" />\<newline>  </svg>\<newline>);'')\<close>
  by (simp add: placeholders_def)

text \<open>
  C6. The claim is that \<open>jsx\<close> rewrites \<open>stroke-width\<close>, \<open>stroke-linecap\<close> and
  \<open>stroke-linejoin\<close> to camelCase. The branch of lines 217-222 rewrites \<open>class=\<close>,
  \<open>for=\<close> and \<open>style="..."\<close> only: on the sample input of the page the attribute
  \<open>stroke-width\<close> is still there in the output, inside the component template with
  \<open>{...props}\<close> on the \<open>svg\<close> element.
\<close>

theorem jsx_keeps_stroke_width:
  \<open>transform unavailable ''jsx''
     ''<svg width="100" height="100">\<newline>  <circle cx="50" cy="50" r="40" stroke="green" stroke-width="4" fill="yellow" />\<newline></svg>'' =
   Converted
     ''export const IconComponent = (props) => (\<newline>  <svg {...props} width="100" height="100">\<newline>  <circle cx="50" cy="50" r="40" stroke="green" stroke-width="4" fill="yellow" />\<newline></svg>\<newline>);''\<close>
  by code_simp

subsection \<open>Input that is not JSON\<close>





subsection \<open>JSON to TypeBox\<close>













subsection \<open>Curl to fetch\<close>

lemma match_star_upto:
  "match_star (NotChar q) [Lit [q]] s =
     (case dropWhile (\<lambda>c. c \<noteq> q) s of [] \<Rightarrow> None | _ # r \<Rightarrow> Some r)"
  by (induction s) (auto split: list.splits option.splits)

lemma match_here_quoted:
  "match_here (quoted q) s =
     (case s of
        [] \<Rightarrow> None
      | c # cs \<Rightarrow>
          if c = q \<and> takeWhile (\<lambda>c. c \<noteq> q) cs \<noteq> []
          then (case dropWhile (\<lambda>c. c \<noteq> q) cs of [] \<Rightarrow> None | _ # r \<Rightarrow> Some r)
          else None)"
  by (cases s; cases "tl s") (auto simp: quoted_def match_star_upto split: list.splits)

lemma match_first_no_start:
  "\<forall>c\<in>set s. \<forall>r. match_here re (c # r) = None \<Longrightarrow> match_first re s = None"
  by (induction s) auto

lemma matched_quoted:
  "dropWhile (\<lambda>c. c \<noteq> q) cs = q # r \<Longrightarrow>
   group1 (matched (q # cs) r) = takeWhile (\<lambda>c. c \<noteq> q) cs"
proof -
  assume d: "dropWhile (\<lambda>c. c \<noteq> q) cs = q # r"
  let ?v = "takeWhile (\<lambda>c. c \<noteq> q) cs"
  have cs: "cs = ?v @ q # r" using d by (metis takeWhile_dropWhile_id)
  have "length (q # cs) - length r = length (q # ?v @ [q])"
    by (subst cs) simp
  then have "matched (q # cs) r = take (length (q # ?v @ [q])) (q # ?v @ q # r)"
    unfolding matched_def using cs by metis
  then have "matched (q # cs) r = q # ?v @ [q]" by simp
  then show ?thesis by (simp add: group1_def)
qed

lemma match_first_quoted:
  "map_option group1 (match_first (quoted q) t) = first_between q t"
proof (induction t rule: length_induct)
  case (1 t)
  show ?case
  proof (cases t)
    case Nil
    then show ?thesis by (simp add: first_between_def)
  next
    case (Cons c cs)
    show ?thesis
    proof (cases "c = q")
      case False
      have "match_here (quoted q) (c # cs) = None"
        using False by (simp add: match_here_quoted)
      moreover have "first_between q (c # cs) = first_between q cs"
        using False split_not_Nil[of q cs]
        by (auto simp: first_between_def split: list.splits)
      moreover have "map_option group1 (match_first (quoted q) cs) = first_between q cs"
        using 1 Cons by simp
      ultimately show ?thesis using Cons by simp
    next
      case True
      let ?v = "takeWhile (\<lambda>c. c \<noteq> q) cs"
      let ?d = "dropWhile (\<lambda>c. c \<noteq> q) cs"
      have fb: "first_between q (q # cs) =
                find (\<lambda>p. p \<noteq> []) (butlast (split q cs))"
        by (simp add: first_between_def)
      show ?thesis
      proof (cases ?d)
        case Nil
        then have noq: "\<forall>c\<in>set cs. c \<noteq> q"
          by simp
        have "split q cs = [?v]" by (subst split_eq) (simp only: Nil list.simps)
        then have r: "first_between q (q # cs) = None" using fb by simp
        have h: "match_here (quoted q) (q # cs) = None"
          by (simp add: match_here_quoted Nil del: dropWhile_eq_Nil_conv)
        have "match_first (quoted q) cs = None"
          using noq by (intro match_first_no_start) (simp add: match_here_quoted)
        then show ?thesis using h r Cons True by simp
      next
        case (Cons d r)
        moreover have "?d \<noteq> [] \<Longrightarrow> \<not> hd ?d \<noteq> q"
          by (rule hd_dropWhile)
        ultimately have d: "?d = q # r" by simp
        have sp: "split q cs = ?v # split q r" by (subst split_eq) (simp only: d list.simps)
        show ?thesis
        proof (cases "?v = []")
          case False
          have "match_here (quoted q) (q # cs) = Some r"
            using False d by (simp add: match_here_quoted)
          moreover have "first_between q (q # cs) = Some ?v"
            using fb sp False split_not_Nil[of q r] by simp
          ultimately show ?thesis
            using \<open>t = c # cs\<close> True matched_quoted[OF d] by simp
        next
          case v: True
          have "cs = ?v @ ?d" by simp
          then have cs: "cs = q # r" using d v by simp
          have h: "match_here (quoted q) (q # cs) = None"
            using v by (simp add: match_here_quoted)
          have "first_between q (q # cs) = find (\<lambda>p. p \<noteq> []) (butlast (split q r))"
            using fb sp v split_not_Nil[of q r] by simp
          also have "\<dots> = first_between q cs"
            by (simp add: first_between_def cs)
          also have "\<dots> = map_option group1 (match_first (quoted q) cs)"
            using 1 \<open>t = c # cs\<close> by simp
          finally show ?thesis using h \<open>t = c # cs\<close> True by simp
        qed
      qed
    qed
  qed
qed

lemma curl_url_eq:
  "curl_url t =
     (case first_between CHR 0x27 t of
        Some v \<Rightarrow> v
      | None \<Rightarrow>
          (case first_between CHR 0x22 t of
             Some v \<Rightarrow> v
           | None \<Rightarrow> ''https://api.example.com''))"
  unfolding curl_url_def match_first_quoted[symmetric]
  by (auto split: option.splits)


text \<open>
  C9, amended. The URL is the first non-empty text between two consecutive single
  quotes of the trimmed input; when there is none, the first non-empty text between two
  consecutive double quotes; when there is none either, \<open>https://api.example.com\<close>. A
  single-quoted token wins over a double-quoted one that stands before it. The output is
  the fixed \<open>fetch\<close> call with method \<open>GET\<close> and the \<open>Content-Type\<close> header around that
  URL, so nothing else of the input (\<open>-H\<close>, \<open>-X\<close>) reaches it. The example of the claim
  holds.
\<close>

theorem curl_fetch_single_quote_first:
  assumes "trim s \<noteq> []"
  shows \<open>transform JsonToTS ''curl_fetch'' s =
           Converted
            (''fetch('' @ [CHR 0x27] @
             (case first_between CHR 0x27 (trim s) of
                Some v \<Rightarrow> v
              | None \<Rightarrow>
                  (case first_between CHR 0x22 (trim s) of
                     Some v \<Rightarrow> v
                   | None \<Rightarrow> ''https://api.example.com'')) @
             [CHR 0x27] @ '', {\<newline>  method: 'GET',\<newline>  headers: {\<newline>    'Content-Type': 'application/json'\<newline>  }\<newline>}).then(res => res.json());'') \<and>
         transform JsonToTS ''curl_fetch'' (''curl 'https://x.test/y'' @ [CHR 0x27]) =
           Converted (''fetch('https://x.test/y', {\<newline>  method: 'GET',\<newline>  headers: {\<newline>    'Content-Type': 'application/json'\<newline>  }\<newline>}).then(res => res.json());'')\<close>
proof (rule conjI)
  show \<open>transform JsonToTS ''curl_fetch'' (''curl 'https://x.test/y'' @ [CHR 0x27]) =
           Converted (''fetch('https://x.test/y', {\<newline>  method: 'GET',\<newline>  headers: {\<newline>    'Content-Type': 'application/json'\<newline>  }\<newline>}).then(res => res.json());'')\<close>
    by code_simp
qed (use assms in \<open>simp add: transform_def Let_def curl_fetch_def curl_url_eq\<close>)

lemma curl_sample_between:
  \<open>trim (''  curl -X POST "https://a.test/b" -H "Accept: text/plain"\<newline>'') = ''curl -X POST "https://a.test/b" -H "Accept: text/plain"'' \<and>
   first_between CHR 0x27 (''curl -X POST "https://a.test/b" -H "Accept: text/plain"'') = None \<and>
   first_between CHR 0x22 (''curl -X POST "https://a.test/b" -H "Accept: text/plain"'') = Some ''https://a.test/b''\<close>
  by code_simp

theorem curl_fetch_single_quote_first_witness:
  \<open>trim (''  curl -X POST "https://a.test/b" -H "Accept: text/plain"\<newline>'') \<noteq> [] \<and>
   transform unavailable ''curl_fetch'' (''  curl -X POST "https://a.test/b" -H "Accept: text/plain"\<newline>'') =
     Converted (''fetch('https://a.test/b', {\<newline>  method: 'GET',\<newline>  headers: {\<newline>    'Content-Type': 'application/json'\<newline>  }\<newline>}).then(res => res.json());'')\<close>
  using curl_fetch_single_quote_first [of \<open>''  curl -X POST "https://a.test/b" -H "Accept: text/plain"\<newline>''\<close> unavailable]
    curl_sample_between
  by simp

text \<open>
  C9, as stated, fails: in the input below the first quoted token is the URL in double
  quotes, and the call that comes out fetches the value of the \<open>-H\<close> flag, the first
  token in single quotes.
\<close>

theorem curl_single_quote_wins:
  \<open>spec_first_quoted_token (trim (''curl "https://a.test/b" -H 'Accept: text/plain' -v'')) = Some ''https://a.test/b'' \<and>
   transform unavailable ''curl_fetch'' (''curl "https://a.test/b" -H 'Accept: text/plain' -v'') =
     Converted (''fetch('Accept: text/plain', {\<newline>  method: 'GET',\<newline>  headers: {\<newline>    'Content-Type': 'application/json'\<newline>  }\<newline>}).then(res => res.json());'')\<close>
  by code_simp

subsection \<open>CSS declarations to an object\<close>















subsection \<open>First match and every match\<close>

lemma plain_Cons [simp]: \<open>plain (c # t) \<longleftrightarrow> c \<notin> set ''cfhsw"'' \<and> plain t\<close>
  by (simp add: plain_def)

lemma plain_Nil [simp]: "plain []"
  by (simp add: plain_def)






























subsection \<open>JSON to TypeScript\<close>









end
